theory Spec2Isabelle
  imports Main
begin

section \<open>Python values, dictionaries and exceptions\<close>

text \<open>
  The values that travel in AMQP property tables (\<open>server_properties\<close>,
  \<open>client_properties\<close>). A Python dict keeps its keys in insertion order, so a
  dict is an association list with distinct keys.
\<close>

datatype pyval =
    PNone
  | PBool bool
  | PInt int
  | PStr string
  | PDict "(string \<times> pyval) list"

type_synonym dict = "(string \<times> pyval) list"

text \<open>Python truthiness (\<open>bool(v)\<close>), as used by \<open>or\<close>, \<open>not\<close> and \<open>if\<close>.\<close>

fun truthy :: "pyval \<Rightarrow> bool" where
  "truthy PNone = False"
| "truthy (PBool b) = b"
| "truthy (PInt i) = (i \<noteq> 0)"
| "truthy (PStr s) = (s \<noteq> [])"
| "truthy (PDict d) = (d \<noteq> [])"

text \<open>\<open>d.get(k)\<close>: the value, or \<open>None\<close> when the key is missing.\<close>

definition dict_get :: "dict \<Rightarrow> string \<Rightarrow> pyval" where
  "dict_get d k = (case map_of d k of None \<Rightarrow> PNone | Some v \<Rightarrow> v)"

text \<open>\<open>d[k] = v\<close>: an existing key keeps its place, a new key goes last.\<close>

fun dict_set :: "('k \<times> 'v) list \<Rightarrow> 'k \<Rightarrow> 'v \<Rightarrow> ('k \<times> 'v) list" where
  "dict_set [] k v = [(k, v)]"
| "dict_set (p # ps) k v = (if fst p = k then (k, v) # ps else p # dict_set ps k v)"

text \<open>\<open>d.update(other)\<close>: the items of \<open>other\<close> are stored in their order.\<close>

fun dict_update :: "dict \<Rightarrow> dict \<Rightarrow> dict" where
  "dict_update d [] = d"
| "dict_update d ((k, v) # kvs) = dict_update (dict_set d k v) kvs"

text \<open>\<open>d.pop(k, None)\<close>, result dropped.\<close>

definition dict_pop :: "dict \<Rightarrow> string \<Rightarrow> dict" where
  "dict_pop d k = filter (\<lambda>p. fst p \<noteq> k) d"

text \<open>
  \<open>x or d\<close> on an optional number: \<open>None\<close> and \<open>0\<close> are falsy and give \<open>d\<close>.
\<close>

definition or_else :: "int option \<Rightarrow> int \<Rightarrow> int" where
  "or_else x d = (case x of None \<Rightarrow> d | Some v \<Rightarrow> if v = 0 then d else v)"

text \<open>\<open>bool(x)\<close> of an optional number.\<close>

definition truthy_num :: "int option \<Rightarrow> bool" where
  "truthy_num x = (case x of None \<Rightarrow> False | Some v \<Rightarrow> v \<noteq> 0)"

text \<open>Decimal printing of integers, for \<open>%r\<close> and \<open>str.format\<close>.\<close>

definition digit_char :: "nat \<Rightarrow> char" where
  "digit_char n = ''0123456789'' ! (n mod 10)"

function str_nat :: "nat \<Rightarrow> string" where
  "str_nat n = (if n < 10 then [digit_char n] else str_nat (n div 10) @ [digit_char n])"
  by pat_completeness auto
termination
  by (relation "measure (\<lambda>n. n)") auto

declare str_nat.simps [simp del]

definition str_int :: "int \<Rightarrow> string" where
  "str_int i = (if i < 0 then CHR ''-'' # str_nat (nat (- i)) else str_nat (nat i))"

text \<open>\<open>s.split(' ')\<close>: splits at every single blank and keeps empty fields.\<close>

fun split_blank :: "string \<Rightarrow> string list" where
  "split_blank [] = [[]]"
| "split_blank (ch # cs) =
     (if ch = CHR '' '' then [] # split_blank cs
      else (case split_blank cs of
              [] \<Rightarrow> [[ch]]
            | w # ws \<Rightarrow> (ch # w) # ws))"

text \<open>
  Exceptions. The AMQP exception classes live in \<open>amqp/exceptions.py\<close>; an instance
  carries \<open>reply_text\<close>, \<open>method_sig\<close> and \<open>reply_code\<close> as given to its constructor.
  Built-in Python exceptions raised by the code of \<open>connection.py\<close> itself are
  classes of the same type.
\<close>

datatype exc_class =
    ConnectionError
  | RecoverableConnectionError
  | ConnectionForced
  | ResourceError
  | NotImplementedMethod
  | OverflowError
  | TypeError
  | AttributeError
  | KeyError
  | SocketTimeout
  | SocketError

datatype exc =
  Exc (exc_class: exc_class) (reply_text: string)
      (method_sig: "(int \<times> int) option") (reply_code: "int option")

section \<open>Methods and frames\<close>

text \<open>
  The Connection-class methods with their decoded arguments, and
  \<open>Channel.Open\<close>, the one channel method the connection sends on behalf of a new
  channel.
\<close>

datatype amqp_method =
    Start int int dict string string
  | StartOk dict string "string option" string
  | Secure string
  | Tune int int int
  | TuneOk int int "int option"
  | Open string string bool
  | OpenOk
  | Close int string int int
  | CloseOk
  | Blocked
  | Unblocked
  | ChannelOpen
  | OtherMethod int int

text \<open>A frame: frame type (1 method, 8 heartbeat), channel id, method.\<close>

datatype frame = Frame (frame_type: int) (frame_channel: int) (frame_method: "amqp_method option")

text \<open>\<open>spec.Channel.Open\<close>, the method signature (class 20, method 10).\<close>

definition spec_Channel_Open :: "int \<times> int" where
  "spec_Channel_Open = (20, 10)"

section \<open>The connection\<close>

text \<open>
  What a callback does is opaque: the model records that it was invoked, and with what.
\<close>

datatype call =
    CallCallback nat
  | CallOnOpen
  | CallOnBlocked nat string
  | CallOnUnblocked nat

text \<open>
  A callback that the connection awaits (\<open>await callback()\<close>,
  \<open>await self.on_blocked(reason)\<close>, \<open>await self.on_unblocked()\<close>): it is called,
  and what it returns is awaited. A coroutine function returns an awaitable; a plain
  function, such as one of the annotated type \<open>Callable[[], None]\<close>, returns a value
  that cannot be awaited, and the \<open>await\<close> raises \<open>TypeError\<close> after the call. The
  callback is its identity and whether its result is awaitable.
\<close>

datatype callback = Callback (cb_id: nat) (cb_awaitable: bool)

text \<open>
  The transport is external. The model keeps what the connection reads of it: whether it
  is connected, and whether its \<open>close()\<close> will raise \<open>socket.error\<close>.
\<close>

record transport =
  t_connected :: bool
  t_close_raises :: bool

record channel =
  channel_id :: int
  is_open :: bool
  on_open :: "nat option"

text \<open>
  An entry of \<open>Connection.channels\<close>: the connection itself (channel 0) or a
  \<open>Channel\<close>.
\<close>

datatype chan_obj = SelfConnection | ChannelObj channel

text \<open>
  The fields of \<open>Connection\<close> that the handlers read or write. Numbers are integers:
  heartbeat intervals and clock readings, which Python may hold as floats, are taken at
  integer values. \<open>transport_opt\<close> is \<open>_transport\<close>, \<open>connection_ref\<close> says
  whether \<open>self.connection\<close> is set, \<open>avail_channel_ids\<close> is the array
  \<open>_avail_channel_ids\<close>. \<open>sent\<close> is the output of the frame writer, in the order
  of writing, and \<open>calls\<close> is the list of callback invocations.
\<close>

record connection =
  client_properties :: dict
  negotiate_capabilities :: dict
  login_method :: string
  login_response :: "string option"
  locale_str :: string
  host :: string
  virtual_host :: string
  handshake_complete :: bool
  channels :: "(int \<times> chan_obj) list option"
  connection_ref :: bool
  transport_opt :: "transport option"
  channel_max :: int
  frame_max :: int
  client_heartbeat :: "int option"
  server_heartbeat :: "int option"
  heartbeat :: "int option"
  last_heartbeat_sent :: int
  last_heartbeat_received :: int
  bytes_sent :: int
  bytes_recv :: int
  prev_sent :: "int option"
  prev_recv :: "int option"
  on_blocked_cb :: "callback option"
  on_unblocked_cb :: "callback option"
  avail_channel_ids :: "int list"
  version_major :: int
  version_minor :: int
  server_properties :: dict
  mechanisms :: "string list"
  locales :: "string list"
  sent :: "frame list"
  calls :: "call list"

text \<open>
  \<open>NEGOTIATE_CAPABILITIES\<close> and \<open>LIBRARY_PROPERTIES\<close>; the library version
  (\<open>amqp.__version__\<close>) is a parameter.
\<close>

definition NEGOTIATE_CAPABILITIES :: dict where
  "NEGOTIATE_CAPABILITIES =
     [(''consumer_cancel_notify'', PBool True),
      (''connection.blocked'', PBool True),
      (''authentication_failure_close'', PBool True)]"

definition LIBRARY_PROPERTIES :: "string \<Rightarrow> dict" where
  "LIBRARY_PROPERTIES version =
     [(''product'', PStr ''py-amqp''), (''product_version'', PStr version)]"

text \<open>
  \<open>Connection.__init__\<close>. The arguments that the fields below depend on are
  collected in a record; \<open>write_table\<close> is the codec's table encoder
  (\<open>serialization._write_table\<close>), whose first four bytes, the length, are dropped.
  \<open>array('H', ...)\<close> holds unsigned 16-bit items: an item above 65535 raises
  \<open>OverflowError\<close>. \<open>range(channel_max, 0, -1)\<close> is \<open>channel_max, ..., 1\<close>.
  \<open>super().__init__(self, 0)\<close> registers the connection itself as channel 0 and sets
  \<open>self.connection\<close>.
\<close>

record init_args =
  arg_host :: string
  arg_userid :: "string option"
  arg_password :: "string option"
  arg_login_method :: string
  arg_login_response :: "string option"
  arg_virtual_host :: string
  arg_locale :: string
  arg_client_properties :: "dict option"
  arg_channel_max :: "int option"
  arg_frame_max :: "int option"
  arg_heartbeat :: "int option"
  arg_on_blocked :: "callback option"
  arg_on_unblocked :: "callback option"

definition default_args :: init_args where
  "default_args =
     \<lparr> arg_host = ''localhost:5672'', arg_userid = Some ''guest'',
       arg_password = Some ''guest'', arg_login_method = ''AMQPLAIN'',
       arg_login_response = None, arg_virtual_host = ''/'', arg_locale = ''en_US'',
       arg_client_properties = None, arg_channel_max = None, arg_frame_max = None,
       arg_heartbeat = Some 0, arg_on_blocked = None, arg_on_unblocked = None \<rparr>"

definition Connection_init ::
  "string \<Rightarrow> (dict \<Rightarrow> string) \<Rightarrow> init_args \<Rightarrow> exc + connection" where
  "Connection_init version write_table a =
     (let cm = or_else (arg_channel_max a) 65535;
          fm = or_else (arg_frame_max a) 131072;
          lr = (case (arg_login_response a, arg_userid a, arg_password a) of
                  (None, Some u, Some p) \<Rightarrow>
                    Some (drop 4 (write_table [(''LOGIN'', PStr u), (''PASSWORD'', PStr p)]))
                | (r, _, _) \<Rightarrow> r);
          cp = dict_update (LIBRARY_PROPERTIES version)
                 (case arg_client_properties a of None \<Rightarrow> [] | Some d \<Rightarrow> if d = [] then [] else d)
      in if cm > 65535 then Inl (Exc OverflowError [] None None)
         else Inr
           \<lparr> client_properties = cp,
             negotiate_capabilities = NEGOTIATE_CAPABILITIES,
             login_method = arg_login_method a,
             login_response = lr,
             locale_str = arg_locale a,
             host = arg_host a,
             virtual_host = arg_virtual_host a,
             handshake_complete = False,
             channels = Some [(0, SelfConnection)],
             connection_ref = True,
             transport_opt = None,
             channel_max = cm,
             frame_max = fm,
             client_heartbeat = arg_heartbeat a,
             server_heartbeat = None,
             heartbeat = None,
             last_heartbeat_sent = 0,
             last_heartbeat_received = 0,
             bytes_sent = 0,
             bytes_recv = 0,
             prev_sent = None,
             prev_recv = None,
             on_blocked_cb = arg_on_blocked a,
             on_unblocked_cb = arg_on_unblocked a,
             avail_channel_ids = rev [1..cm],
             version_major = 0,
             version_minor = 0,
             server_properties = [],
             mechanisms = [],
             locales = [],
             sent = [],
             calls = [] \<rparr>)"

text \<open>
  Modelled from the spec: \<open>ChannelBase.send_method\<close> (\<open>amqp/abstract_channel.py\<close> is
  not among the sources). The method is encoded and handed to the connection's single
  frame writer as a method frame (type 1) on the sender's channel; frames are written in
  the order they are requested. The model appends the frame to the log \<open>sent\<close>; a
  \<open>callback\<close> given to \<open>send_method\<close> runs after the write and is sequenced by the
  caller.
\<close>

definition send_method :: "int \<Rightarrow> amqp_method \<Rightarrow> connection \<Rightarrow> connection" where
  "send_method ch m c = c\<lparr>sent := sent c @ [Frame 1 ch (Some m)]\<rparr>"

subsection \<open>Tune\<close>

definition on_tune_sent :: "connection \<Rightarrow> connection" where
  "on_tune_sent c = send_method 0 (Open (virtual_host c) '''' False) c"

definition on_tune :: "connection \<Rightarrow> int \<Rightarrow> int \<Rightarrow> int \<Rightarrow> connection" where
  "on_tune c channel_max_arg frame_max_arg server_heartbeat_arg =
     (let client_hb = or_else (client_heartbeat c) 0;
          c1 = c\<lparr>channel_max := or_else (Some channel_max_arg) (channel_max c)\<rparr>;
          c2 = c1\<lparr>frame_max := or_else (Some frame_max_arg) (frame_max c1)\<rparr>;
          server_hb = or_else (Some server_heartbeat_arg) 0;
          c3 = c2\<lparr>server_heartbeat := Some server_hb\<rparr>;
          c4 = (if server_hb = 0 \<or> client_hb = 0
                then c3\<lparr>heartbeat := Some (max server_hb client_hb)\<rparr>
                else c3\<lparr>heartbeat := Some (min server_hb client_hb)\<rparr>);
          c5 = (if \<not> truthy_num (client_heartbeat c4) then c4\<lparr>heartbeat := Some 0\<rparr> else c4);
          c6 = send_method 0 (TuneOk (channel_max c5) (frame_max c5) (heartbeat c5)) c5
      in on_tune_sent c6)"

subsection \<open>Start\<close>

text \<open>
  \<open>props.get('capabilities') or {}\<close>, as in \<open>_on_start\<close> and in the property
  \<open>server_capabilities\<close>.
\<close>

definition capabilities_of :: "dict \<Rightarrow> pyval" where
  "capabilities_of props =
     (let got = dict_get props ''capabilities'' in if truthy got then got else PDict [])"

definition server_capabilities :: "connection \<Rightarrow> pyval" where
  "server_capabilities c = capabilities_of (server_properties c)"

text \<open>
  The dict comprehension of \<open>_on_start\<close>: the items of the negotiation table whose
  key has a truthy value in the server's capabilities, stored in the table's order.
  \<open>scap.get\<close> is only evaluated for an item of the table, and raises
  \<open>AttributeError\<close> (here \<open>None\<close>) when \<open>scap\<close> is not a dict.
\<close>

definition cap_comprehension :: "dict \<Rightarrow> dict \<Rightarrow> dict" where
  "cap_comprehension sd table =
     dict_update [] (filter (\<lambda>(wanted_cap, enable_cap). truthy (dict_get sd wanted_cap)) table)"

definition wanted_caps :: "pyval \<Rightarrow> dict \<Rightarrow> dict option" where
  "wanted_caps scap table =
     (if table = [] then Some []
      else (case scap of
              PDict sd \<Rightarrow> Some (cap_comprehension sd table)
            | _ \<Rightarrow> None))"

definition on_start ::
  "connection \<Rightarrow> int \<Rightarrow> int \<Rightarrow> dict \<Rightarrow> string \<Rightarrow> string \<Rightarrow> exc option \<times> connection" where
  "on_start c vmajor vminor sprops mechs locs =
     (let c1 = c\<lparr>version_major := vmajor, version_minor := vminor,
                 server_properties := sprops,
                 mechanisms := split_blank mechs, locales := split_blank locs\<rparr>;
          scap = capabilities_of sprops;
          c2 = (case map_of (client_properties c1) ''capabilities'' of
                  None \<Rightarrow> c1\<lparr>client_properties :=
                                dict_set (client_properties c1) ''capabilities'' (PDict [])\<rparr>
                | Some _ \<Rightarrow> c1)
      in case dict_get (client_properties c2) ''capabilities'' of
           PDict cap \<Rightarrow>
             (case wanted_caps scap (negotiate_capabilities c2) of
                None \<Rightarrow> (Some (Exc AttributeError [] None None), c2)
              | Some new \<Rightarrow>
                  (let cap' = dict_update cap new;
                       c3 = c2\<lparr>client_properties :=
                                 dict_set (client_properties c2) ''capabilities'' (PDict cap')\<rparr>;
                       c4 = (if cap' = []
                             then c3\<lparr>client_properties :=
                                       dict_pop (client_properties c3) ''capabilities''\<rparr>
                             else c3)
                   in (None, send_method 0
                               (StartOk (client_properties c4) (login_method c4)
                                        (login_response c4) (locale_str c4)) c4)))
         | _ \<Rightarrow> (Some (Exc AttributeError [] None None), c2))"

definition on_secure :: "connection \<Rightarrow> string \<Rightarrow> connection" where
  "on_secure c challenge = c"

definition on_open_ok :: "connection \<Rightarrow> connection" where
  "on_open_ok c = c\<lparr>handshake_complete := True, calls := calls c @ [CallOnOpen]\<rparr>"

subsection \<open>The channel registry\<close>

definition connected :: "connection \<Rightarrow> bool" where
  "connected c = (case transport_opt c of None \<Rightarrow> False | Some t \<Rightarrow> t_connected t)"

text \<open>
  Modelled from the spec: \<open>Channel.collect\<close> (\<open>amqp/channel.py\<close> is not among the
  sources). Destroying a channel closes it, takes it out of the registry and returns its
  id to the pool.
\<close>

definition channel_collect :: "connection \<Rightarrow> int \<Rightarrow> connection" where
  "channel_collect c i =
     c\<lparr>channels := map_option (filter (\<lambda>p. fst p \<noteq> i)) (channels c),
       avail_channel_ids := avail_channel_ids c @ [i]\<rparr>"

text \<open>
  \<open>collect\<close>. Reading \<open>self.transport\<close> while \<open>_transport\<close> is \<open>None\<close> gives
  \<open>None\<close> (the \<open>connect()\<close> of the property is never awaited), and \<open>None.close()\<close>
  raises \<open>AttributeError\<close>; so does \<open>None.values()\<close>. The \<open>finally\<close> clause runs on
  every path.
\<close>

definition collect :: "connection \<Rightarrow> exc option \<times> connection" where
  "collect c =
     (let fin = (\<lambda>c'. c'\<lparr>transport_opt := None, connection_ref := False, channels := None\<rparr>)
      in case transport_opt c of
           None \<Rightarrow> (Some (Exc AttributeError [] None None), fin c)
         | Some t \<Rightarrow>
             if t_close_raises t then (None, fin c)
             else (case channels c of
                     None \<Rightarrow> (Some (Exc AttributeError [] None None), fin c)
                   | Some chs \<Rightarrow>
                       (let temp_list = map fst (filter (\<lambda>p. snd p \<noteq> SelfConnection) chs)
                        in (None, fin (fold (\<lambda>i c'. channel_collect c' i) temp_list c)))))"

text \<open>
  \<open>_get_free_channel_id\<close>: \<open>array.pop()\<close> takes the last item. The message of the
  \<open>ResourceError\<close> needs \<open>len(self.channels)\<close>, which raises \<open>TypeError\<close> when the
  registry is \<open>None\<close>.
\<close>

definition get_free_channel_id :: "connection \<Rightarrow> (exc + int) \<times> connection" where
  "get_free_channel_id c =
     (if avail_channel_ids c = []
      then (case channels c of
              None \<Rightarrow> (Inl (Exc TypeError [] None None), c)
            | Some chs \<Rightarrow>
                (Inl (Exc ResourceError
                        (''No free channel ids, current='' @ str_nat (length chs) @
                         '', channel_max='' @ str_int (channel_max c))
                        (Some spec_Channel_Open) None), c))
      else (Inr (last (avail_channel_ids c)),
            c\<lparr>avail_channel_ids := butlast (avail_channel_ids c)\<rparr>))"

text \<open>\<open>_claim_channel_id\<close>: \<open>array.remove(x)\<close> deletes the first occurrence.\<close>

definition claim_channel_id :: "connection \<Rightarrow> int \<Rightarrow> exc option \<times> connection" where
  "claim_channel_id c i =
     (if i \<in> set (avail_channel_ids c)
      then (None, c\<lparr>avail_channel_ids := remove1 i (avail_channel_ids c)\<rparr>)
      else (Some (Exc ConnectionError (''Channel '' @ str_int i @ '' already open'') None None), c))"

text \<open>
  Modelled from the spec: \<open>Channel.__init__\<close> and \<open>Channel.open\<close>
  (\<open>amqp/channel.py\<close> is not among the sources). A new channel takes the requested id,
  which must be claimed, or an id allocated from the pool when none is requested; it is
  registered in the channel map, and the channel-open handshake is performed on it
  (\<open>Channel.Open\<close> is sent on the new channel, and the channel is open once the
  broker's reply is in).
\<close>

definition Channel_new ::
  "connection \<Rightarrow> int option \<Rightarrow> nat option \<Rightarrow> (exc + int) \<times> connection" where
  "Channel_new c requested callback =
     (case (case requested of
              None \<Rightarrow> get_free_channel_id c
            | Some i \<Rightarrow> (case claim_channel_id c i of
                          (Some e, c') \<Rightarrow> (Inl e, c')
                        | (None, c') \<Rightarrow> (Inr i, c'))) of
        (Inl e, c') \<Rightarrow> (Inl e, c')
      | (Inr i, c') \<Rightarrow>
          (Inr i, c'\<lparr>channels :=
                       map_option (\<lambda>chs. dict_set chs i
                                            (ChannelObj \<lparr>channel_id = i, is_open = False, on_open = callback\<rparr>))
                                  (channels c')\<rparr>))"

definition Channel_open :: "connection \<Rightarrow> int \<Rightarrow> connection" where
  "Channel_open c i =
     (send_method i ChannelOpen c)
       \<lparr>channels :=
          map_option (map (\<lambda>p. case p of
                                  (j, ChannelObj ch) \<Rightarrow>
                                    if j = i then (j, ChannelObj (ch\<lparr>is_open := True\<rparr>)) else p
                                | _ \<Rightarrow> p))
                     (channels c)\<rparr>"

text \<open>
  \<open>Connection.channel\<close> (here \<open>channel_method\<close>, beside the record of that name):
  the registered object, or a new channel on \<open>KeyError\<close> (a missing \<open>channel_id\<close>
  is the key \<open>None\<close>, never registered).
\<close>

definition channel_method ::
  "connection \<Rightarrow> int option \<Rightarrow> nat option \<Rightarrow> (exc + chan_obj) \<times> connection" where
  "channel_method c requested callback =
     (case channels c of
        Some chs \<Rightarrow>
          (case (case requested of None \<Rightarrow> None | Some i \<Rightarrow> map_of chs i) of
             Some obj \<Rightarrow> (Inr obj, c)
           | None \<Rightarrow>
               (case Channel_new c requested callback of
                  (Inl e, c') \<Rightarrow> (Inl e, c')
                | (Inr i, c') \<Rightarrow>
                    (let c'' = Channel_open c' i
                     in (Inr (ChannelObj \<lparr>channel_id = i, is_open = True,
                                           on_open = callback\<rparr>), c''))))
      | None \<Rightarrow> (Inl (Exc RecoverableConnectionError ''Connection already closed.'' None None), c))"

subsection \<open>Close\<close>

text \<open>
  Modelled from the spec: \<open>error_for_code\<close> (\<open>amqp/exceptions.py\<close> is not among the
  sources). The error raised for a received Close is mapped from the reply code and
  carries the reply code, the reply text and the offending (class id, method id). The
  table from reply codes to exception classes is not given by the spec and is the
  parameter \<open>error_map\<close>; a code outside the table gives the default class.
\<close>

definition error_for_code ::
  "(int \<Rightarrow> exc_class option) \<Rightarrow> int \<Rightarrow> string \<Rightarrow> int \<times> int \<Rightarrow> exc_class \<Rightarrow> exc" where
  "error_for_code error_map code rtext msig dflt =
     Exc (case error_map code of None \<Rightarrow> dflt | Some cls \<Rightarrow> cls)
         rtext (Some msig) (Some code)"

definition on_close_ok :: "connection \<Rightarrow> exc option \<times> connection" where
  "on_close_ok c = collect c"

definition x_close_ok :: "connection \<Rightarrow> exc option \<times> connection" where
  "x_close_ok c = on_close_ok (send_method 0 CloseOk c)"

definition on_close ::
  "(int \<Rightarrow> exc_class option) \<Rightarrow> connection \<Rightarrow> int \<Rightarrow> string \<Rightarrow> int \<Rightarrow> int
     \<Rightarrow> exc option \<times> connection" where
  "on_close error_map c code rtext class_id method_id =
     (case x_close_ok c of
        (Some e, c') \<Rightarrow> (Some e, c')
      | (None, c') \<Rightarrow>
          (Some (error_for_code error_map code rtext (class_id, method_id) ConnectionError), c'))"

text \<open>
  \<open>await cb(...)\<close>: the call is recorded, then its result is awaited.
\<close>

definition await_callback :: "callback \<Rightarrow> call \<Rightarrow> connection \<Rightarrow> exc option \<times> connection" where
  "await_callback cb ev c =
     (if cb_awaitable cb then None else Some (Exc TypeError [] None None),
      c\<lparr>calls := calls c @ [ev]\<rparr>)"

definition on_blocked :: "connection \<Rightarrow> exc option \<times> connection" where
  "on_blocked c =
     (let reason = ''connection blocked, see broker logs''
      in case on_blocked_cb c of
           Some f \<Rightarrow> await_callback f (CallOnBlocked (cb_id f) reason) c
         | None \<Rightarrow> (None, c))"

definition on_unblocked :: "connection \<Rightarrow> exc option \<times> connection" where
  "on_unblocked c =
     (case on_unblocked_cb c of
        Some f \<Rightarrow> await_callback f (CallOnUnblocked (cb_id f)) c
      | None \<Rightarrow> (None, c))"

subsection \<open>Heartbeats\<close>

text \<open>
  \<open>send_heartbeat\<close>: \<open>frame_writer(8, 0, None, None, None)\<close>, a frame of type 8 on
  channel 0 with no method.
\<close>

definition send_heartbeat :: "connection \<Rightarrow> connection" where
  "send_heartbeat c = c\<lparr>sent := sent c @ [Frame 8 0 None]\<rparr>"

text \<open>
  \<open>heartbeat_tick\<close> reads \<open>monotonic()\<close> at five places. The clock is an input: one
  reading for each place, in the order of the source (the stamp of
  \<open>last_heartbeat_sent\<close>, the stamp of \<open>last_heartbeat_received\<close>, \<open>now\<close>, the stamp
  after \<open>send_heartbeat\<close>, and the reading of the final comparison). Times and
  intervals are integers. The fields assigned before a \<open>raise\<close> stay assigned, so the
  connection is returned together with the exception.
\<close>

record clock =
  at_sent_stamp :: int
  at_recv_stamp :: int
  at_now :: int
  at_after_send :: int
  at_check :: int

definition heartbeat_tick :: "connection \<Rightarrow> clock \<Rightarrow> exc option \<times> connection" where
  "heartbeat_tick c clk =
     (case heartbeat c of
        None \<Rightarrow> (None, c)
      | Some hb \<Rightarrow>
          if hb = 0 then (None, c)
          else
            (let sent_now = bytes_sent c;
                 recv_now = bytes_recv c;
                 c1 = (if prev_sent c = None \<or> prev_sent c \<noteq> Some sent_now
                       then c\<lparr>last_heartbeat_sent := at_sent_stamp clk\<rparr> else c);
                 c2 = (if prev_recv c1 = None \<or> prev_recv c1 \<noteq> Some recv_now
                       then c1\<lparr>last_heartbeat_received := at_recv_stamp clk\<rparr> else c1);
                 now = at_now clk;
                 c3 = c2\<lparr>prev_sent := Some sent_now, prev_recv := Some recv_now\<rparr>;
                 c4 = (if now > last_heartbeat_sent c3 + hb
                       then (send_heartbeat c3)\<lparr>last_heartbeat_sent := at_after_send clk\<rparr>
                       else c3)
             in if last_heartbeat_received c4 \<noteq> 0 \<and>
                   last_heartbeat_received c4 + 2 * hb < at_check clk
                then (Some (Exc ConnectionForced ''Too many heartbeats missed'' None None), c4)
                else (None, c4)))"

text \<open>A clock that does not advance while the tick runs.\<close>

definition instant :: "int \<Rightarrow> clock" where
  "instant t = \<lparr>at_sent_stamp = t, at_recv_stamp = t, at_now = t, at_after_send = t, at_check = t\<rparr>"

subsection \<open>Inbound frames and connect\<close>

text \<open>
  Modelled from the spec: the dispatch of an inbound method
  (\<open>ChannelBase.dispatch_method\<close> and the frame handler of \<open>amqp/method_framing.py\<close>
  are not among the sources). A method frame addressed to channel 0 goes to the
  connection's own handler for it, by the table of \<open>_setup_listeners\<close>; one
  outside the table is a protocol error. A frame for channel N > 0 is forwarded
  to that channel's dispatcher, which is outside the connection.
\<close>

definition dispatch_method ::
  "(int \<Rightarrow> exc_class option) \<Rightarrow> connection \<Rightarrow> amqp_method \<Rightarrow> exc option \<times> connection" where
  "dispatch_method error_map c m =
     (case m of
        Start vmajor vminor sprops mechs locs \<Rightarrow> on_start c vmajor vminor sprops mechs locs
      | OpenOk \<Rightarrow> (None, on_open_ok c)
      | Secure challenge \<Rightarrow> (None, on_secure c challenge)
      | Tune cm fm hb \<Rightarrow> (None, on_tune c cm fm hb)
      | Close code rtext class_id method_id \<Rightarrow>
          on_close error_map c code rtext class_id method_id
      | Blocked \<Rightarrow> on_blocked c
      | Unblocked \<Rightarrow> on_unblocked c
      | CloseOk \<Rightarrow> on_close_ok c
      | _ \<Rightarrow> (Some (Exc NotImplementedMethod [] None None), c))"

text \<open>\<open>on_inbound_method\<close>: \<open>self.channels[channel_id].dispatch_method(...)\<close>.\<close>

definition on_inbound_method ::
  "(int \<Rightarrow> exc_class option) \<Rightarrow> connection \<Rightarrow> int \<Rightarrow> amqp_method \<Rightarrow> exc option \<times> connection" where
  "on_inbound_method error_map c ch m =
     (case channels c of
        None \<Rightarrow> (Some (Exc TypeError [] None None), c)
      | Some chs \<Rightarrow>
          (case map_of chs ch of
             None \<Rightarrow> (Some (Exc KeyError [] None None), c)
           | Some SelfConnection \<Rightarrow> dispatch_method error_map c m
           | Some (ChannelObj _) \<Rightarrow> (None, c)))"

definition on_inbound_frame ::
  "(int \<Rightarrow> exc_class option) \<Rightarrow> connection \<Rightarrow> frame \<Rightarrow> exc option \<times> connection" where
  "on_inbound_frame error_map c f =
     (case frame_method f of
        Some m \<Rightarrow> on_inbound_method error_map c (frame_channel f) m
      | None \<Rightarrow> (None, c))"

text \<open>
  \<open>blocking_read\<close> reads exactly one frame and dispatches it. The frames the broker
  will deliver are an input; when none is left the read times out. The result carries
  the frames still to come.
\<close>

definition blocking_read ::
  "(int \<Rightarrow> exc_class option) \<Rightarrow> connection \<Rightarrow> frame list
     \<Rightarrow> exc option \<times> connection \<times> frame list" where
  "blocking_read error_map c inbound =
     (case transport_opt c of
        None \<Rightarrow> (Some (Exc AttributeError [] None None), c, inbound)
      | Some t \<Rightarrow>
          (case inbound of
             [] \<Rightarrow> (Some (Exc SocketTimeout [] None None), c, [])
           | f # rest \<Rightarrow>
               (case on_inbound_frame error_map c f of (e, c') \<Rightarrow> (e, c', rest))))"

definition drain_events ::
  "(int \<Rightarrow> exc_class option) \<Rightarrow> connection \<Rightarrow> frame list
     \<Rightarrow> exc option \<times> connection \<times> frame list" where
  "drain_events error_map c inbound = blocking_read error_map c inbound"

text \<open>
  The loop of \<open>connect\<close>: \<open>while not self._handshake_complete: drain_events(...)\<close>.
  Every turn consumes one inbound frame or raises.
\<close>

fun handshake_loop ::
  "(int \<Rightarrow> exc_class option) \<Rightarrow> connection \<Rightarrow> frame list \<Rightarrow> exc option \<times> connection" where
  "handshake_loop error_map c [] =
     (if handshake_complete c then (None, c)
      else (case drain_events error_map c [] of (e, c', _) \<Rightarrow> (e, c')))"
| "handshake_loop error_map c (f # rest) =
     (if handshake_complete c then (None, c)
      else (case drain_events error_map c [f] of
              (Some e, c', _) \<Rightarrow> (Some e, c')
            | (None, c', _) \<Rightarrow> handshake_loop error_map c' rest))"

text \<open>
  \<open>connect\<close>. The network is an input: whether \<open>Transport.connect()\<close> raises, how the
  transport will behave on \<open>close()\<close>, and the frames the broker sends. On a connected
  instance the statement is \<open>await callback() if callback else None\<close>, that is
  \<open>(await callback()) if callback else None\<close>.
\<close>

record network =
  connect_raises :: "exc option"
  close_raises :: bool
  broker_frames :: "frame list"

definition connect ::
  "(int \<Rightarrow> exc_class option) \<Rightarrow> connection \<Rightarrow> callback option \<Rightarrow> network
     \<Rightarrow> exc option \<times> connection" where
  "connect error_map c callback net =
     (if connected c
      then (case callback of
              Some f \<Rightarrow> await_callback f (CallCallback (cb_id f)) c
            | None \<Rightarrow> (None, c))
      else
        (let c1 = c\<lparr>transport_opt :=
                      Some \<lparr>t_connected = False, t_close_raises = close_raises net\<rparr>\<rparr>
         in case connect_raises net of
              Some e \<Rightarrow> (Some e, c1)
            | None \<Rightarrow>
                handshake_loop error_map
                  (c1\<lparr>transport_opt :=
                        Some \<lparr>t_connected = True, t_close_raises = close_raises net\<rparr>\<rparr>)
                  (broker_frames net)))"

text \<open>
  The pool invariant of the data model: the free ids are distinct, and none of them is
  the id of a registered channel.
\<close>

definition registered_ids :: "connection \<Rightarrow> int set" where
  "registered_ids c = (case channels c of None \<Rightarrow> {} | Some chs \<Rightarrow> fst ` set chs)"

definition pool_inv :: "connection \<Rightarrow> bool" where
  "pool_inv c \<longleftrightarrow>
     distinct (avail_channel_ids c) \<and> set (avail_channel_ids c) \<inter> registered_ids c = {}"

section \<open>Example inputs\<close>

text \<open>
  A codec stub for the login table, and the connection that \<open>Connection(channel_max=cm,
  heartbeat=hb)\<close> constructs with library version 2.0.
\<close>

definition example_codec :: "dict \<Rightarrow> string" where
  "example_codec d = ''....LOGIN-PASSWORD''"

definition example_conn :: "int option \<Rightarrow> int option \<Rightarrow> connection" where
  "example_conn cm hb =
     projr (Connection_init ''2.0'' example_codec
              (default_args\<lparr>arg_channel_max := cm, arg_heartbeat := hb\<rparr>))"

text \<open>Two reply-code tables: one that knows 320, and the empty one.\<close>

definition example_error_map :: "int \<Rightarrow> exc_class option" where
  "example_error_map code = (if code = 320 then Some ConnectionForced else None)"

definition empty_error_map :: "int \<Rightarrow> exc_class option" where
  "empty_error_map code = None"

text \<open>A broker that completes the handshake: Start, Tune(0, 0, 0), OpenOk.\<close>

definition example_net :: network where
  "example_net =
     \<lparr> connect_raises = None, close_raises = False,
       broker_frames =
         [Frame 1 0 (Some (Start 0 9 [] ''PLAIN'' ''en_US'')),
          Frame 1 0 (Some (Tune 0 0 0)),
          Frame 1 0 (Some OpenOk)] \<rparr>"

text \<open>The connection after \<open>connect()\<close> against that broker.\<close>

definition example_open :: connection where
  "example_open =
     snd (connect example_error_map (example_conn (Some 3) (Some 0)) None example_net)"


text \<open>\<open>Connection(channel_max=3, heartbeat=60)\<close> after Tune(0, 0, 60).\<close>

definition example_tuned :: connection where
  "example_tuned = on_tune (example_conn (Some 3) (Some 60)) 0 0 60"

text \<open>
  A clock that advances by 190 seconds between the sampling step of a tick and its
  final comparison.
\<close>

definition example_drift :: clock where
  "example_drift =
     \<lparr>at_sent_stamp = 10, at_recv_stamp = 10, at_now = 10, at_after_send = 10, at_check = 200\<rparr>"

text \<open>
  Server properties whose capability table lists \<open>consumer_cancel_notify\<close> with the
  value \<open>b\<close>, and a capability the client does not negotiate.
\<close>

definition example_sprops :: "bool \<Rightarrow> dict" where
  "example_sprops b =
     [(''product'', PStr ''RabbitMQ''),
      (''capabilities'', PDict [(''consumer_cancel_notify'', PBool b),
                                (''publisher_confirms'', PBool True)])]"

section \<open>Facts about the examples\<close>

lemmas tune_defs =
  on_tune_def on_tune_sent_def send_method_def or_else_def truthy_num_def Let_def

lemmas conn_defs = connect_def connected_def drain_events_def blocking_read_def
  on_inbound_frame_def on_inbound_method_def dispatch_method_def on_start_def wanted_caps_def
  capabilities_of_def cap_comprehension_def on_open_ok_def dict_get_def dict_pop_def


lemma example_conn_pool: "avail_channel_ids (example_conn (Some 3) hb) = [3, 2, 1]"
  by (simp add: example_conn_def Connection_init_def default_args_def or_else_def Let_def
        upto.simps)

lemma example_fields:
  "transport_opt (example_conn (Some 3) hb) = None"
  "handshake_complete (example_conn (Some 3) hb) = False"
  "channels (example_conn (Some 3) hb) = Some [(0, SelfConnection)]"
  "client_properties (example_conn (Some 3) hb) =
     [(''product'', PStr ''py-amqp''), (''product_version'', PStr ''2.0'')]"
  "negotiate_capabilities (example_conn (Some 3) hb) = NEGOTIATE_CAPABILITIES"
  "sent (example_conn (Some 3) hb) = []"
  "calls (example_conn (Some 3) hb) = []"
  "client_heartbeat (example_conn (Some 3) hb) = hb"
  "heartbeat (example_conn (Some 3) hb) = None"
  "prev_sent (example_conn (Some 3) hb) = None"
  "prev_recv (example_conn (Some 3) hb) = None"
  "channel_max (example_conn (Some 3) hb) = 3"
  "frame_max (example_conn (Some 3) hb) = 131072"
  "virtual_host (example_conn (Some 3) hb) = ''/''"
  "login_method (example_conn (Some 3) hb) = ''AMQPLAIN''"
  "login_response (example_conn (Some 3) hb) = Some ''LOGIN-PASSWORD''"
  "locale_str (example_conn (Some 3) hb) = ''en_US''"
  "bytes_sent (example_conn (Some 3) hb) = 0"
  "bytes_recv (example_conn (Some 3) hb) = 0"
  "last_heartbeat_sent (example_conn (Some 3) hb) = 0"
  "last_heartbeat_received (example_conn (Some 3) hb) = 0"
  by (simp_all add: example_conn_def Connection_init_def default_args_def or_else_def Let_def
      LIBRARY_PROPERTIES_def example_codec_def)

lemma example_conn1:
  "avail_channel_ids (example_conn (Some 1) hb) = [1]"
  "channels (example_conn (Some 1) hb) = Some [(0, SelfConnection)]"
  "channel_max (example_conn (Some 1) hb) = 1"
  by (simp_all add: example_conn_def Connection_init_def default_args_def or_else_def Let_def
        upto.simps)

lemma str_small:
  "str_nat (Suc 0) = ''1''" "str_int 1 = ''1''" "str_nat 2 = ''2''" "str_int 2 = ''2''"
  by (simp_all add: str_int_def str_nat.simps digit_char_def)

text \<open>
  The full handshake: the broker sends Start, Tune(0, 0, 0) and OpenOk; the client
  answers StartOk, TuneOk with its own limits and heartbeat 0, then Open, and the
  handshake is complete.
\<close>

lemma example_handshake:
  "connect example_error_map (example_conn (Some 3) (Some 0)) None example_net =
    (None, (example_conn (Some 3) (Some 0))
       \<lparr> handshake_complete := True,
         transport_opt := Some \<lparr>t_connected = True, t_close_raises = False\<rparr>,
         server_heartbeat := Some 0, heartbeat := Some 0,
         version_major := 0, version_minor := 9, server_properties := [],
         mechanisms := [''PLAIN''], locales := [''en_US''],
         sent := [Frame 1 0 (Some (StartOk [(''product'', PStr ''py-amqp''),
                                            (''product_version'', PStr ''2.0'')]
                                     ''AMQPLAIN'' (Some ''LOGIN-PASSWORD'') ''en_US'')),
                  Frame 1 0 (Some (TuneOk 3 131072 (Some 0))),
                  Frame 1 0 (Some (Open ''/'' [] False))],
         calls := [CallOnOpen] \<rparr>)"
  by (simp add: conn_defs tune_defs example_net_def example_fields NEGOTIATE_CAPABILITIES_def)

lemma example_open_fields:
  "transport_opt example_open = Some \<lparr>t_connected = True, t_close_raises = False\<rparr>"
  "channels example_open = Some [(0, SelfConnection)]"
  "avail_channel_ids example_open = [3, 2, 1]"
  "handshake_complete example_open"
  "calls example_open = [CallOnOpen]"
  "channel_max example_open = 3"
  "length (sent example_open) = 3"
  "bytes_recv example_open = 0"
  "bytes_sent example_open = 0"
  by (simp_all add: example_open_def example_handshake example_fields example_conn_pool)

lemma example_first_channel:
  "channel_method example_open None None =
     (Inr (ChannelObj \<lparr>channel_id = 1, is_open = True, on_open = None\<rparr>),
      example_open
        \<lparr> channels := Some [(0, SelfConnection),
                             (1, ChannelObj \<lparr>channel_id = 1, is_open = True, on_open = None\<rparr>)],
          avail_channel_ids := [3, 2],
          sent := sent example_open @ [Frame 1 1 (Some ChannelOpen)] \<rparr>)"
  by (simp add: channel_method_def Channel_new_def Channel_open_def get_free_channel_id_def
      send_method_def example_open_fields)


lemma example_tuned_fields:
  "prev_sent example_tuned = None" "prev_recv example_tuned = None"
  "heartbeat example_tuned = Some 60"
  "last_heartbeat_received example_tuned = 0" "last_heartbeat_sent example_tuned = 0"
  "bytes_recv example_tuned = 0" "bytes_sent example_tuned = 0"
  by (simp_all add: example_tuned_def tune_defs example_fields)

section \<open>Construction and the pool invariant\<close>


lemma init_pool_inv:
  assumes "Connection_init version write_table a = Inr c"
  shows "pool_inv c"
proof -
  from assms have "avail_channel_ids c = rev [1 .. or_else (arg_channel_max a) 65535]"
    and "channels c = Some [(0, SelfConnection)]"
    by (auto simp: Connection_init_def Let_def split: if_splits)
  then show ?thesis by (simp add: pool_inv_def registered_ids_def)
qed

lemma last_notin_butlast: "distinct xs \<Longrightarrow> xs \<noteq> [] \<Longrightarrow> last xs \<notin> set (butlast xs)"
  by (induction xs) (auto dest: in_set_butlastD)

lemma pool_inv_pop:
  assumes "pool_inv c" "avail_channel_ids c \<noteq> []"
  shows "last (avail_channel_ids c) \<notin> registered_ids c"
    and "last (avail_channel_ids c) \<notin> set (butlast (avail_channel_ids c))"
    and "pool_inv (c\<lparr>avail_channel_ids := butlast (avail_channel_ids c)\<rparr>)"
proof -
  from assms have d: "distinct (avail_channel_ids c)"
    and j: "set (avail_channel_ids c) \<inter> registered_ids c = {}"
    by (simp_all add: pool_inv_def)
  from assms(2) have "last (avail_channel_ids c) \<in> set (avail_channel_ids c)" by simp
  with j show "last (avail_channel_ids c) \<notin> registered_ids c" by blast
  show "last (avail_channel_ids c) \<notin> set (butlast (avail_channel_ids c))"
    using d assms(2) by (rule last_notin_butlast)
  have "set (butlast (avail_channel_ids c)) \<subseteq> set (avail_channel_ids c)"
    by (auto dest: in_set_butlastD)
  with d j show "pool_inv (c\<lparr>avail_channel_ids := butlast (avail_channel_ids c)\<rparr>)"
    by (auto simp: pool_inv_def registered_ids_def distinct_butlast)
qed

lemma keys_dict_set: "fst ` set (dict_set d k v) = insert k (fst ` set d)"
  by (induction d) auto

lemma pool_inv_register:
  assumes "pool_inv c" "i \<notin> set (avail_channel_ids c)"
  shows "pool_inv (c\<lparr>channels := map_option (\<lambda>chs. dict_set chs i v) (channels c)\<rparr>)"
  using assms by (auto simp: pool_inv_def registered_ids_def keys_dict_set split: option.splits)

lemma Channel_new_pool_inv:
  assumes "pool_inv c"
  shows "pool_inv (snd (Channel_new c requested callback))"
proof (cases requested)
  case None
  show ?thesis
  proof (cases "avail_channel_ids c = []")
    case True
    with None assms show ?thesis
      by (simp add: Channel_new_def get_free_channel_id_def split: option.splits)
  next
    case False
    let ?c' = "c\<lparr>avail_channel_ids := butlast (avail_channel_ids c)\<rparr>"
    from pool_inv_pop[OF assms False]
    have "pool_inv ?c'" and "last (avail_channel_ids c) \<notin> set (avail_channel_ids ?c')"
      by simp_all
    from pool_inv_register[OF this]
    show ?thesis using None False by (simp add: Channel_new_def get_free_channel_id_def)
  qed
next
  case (Some i)
  show ?thesis
  proof (cases "i \<in> set (avail_channel_ids c)")
    case False
    with Some assms show ?thesis by (simp add: Channel_new_def claim_channel_id_def)
  next
    case True
    let ?c' = "c\<lparr>avail_channel_ids := remove1 i (avail_channel_ids c)\<rparr>"
    from assms have d: "distinct (avail_channel_ids c)" by (simp add: pool_inv_def)
    from assms have "pool_inv ?c'"
      by (auto simp: pool_inv_def registered_ids_def dest: notin_set_remove1)
    moreover from d have "i \<notin> set (avail_channel_ids ?c')" by simp
    ultimately have "pool_inv (?c'\<lparr>channels := map_option (\<lambda>chs. dict_set chs i
         (ChannelObj \<lparr>channel_id = i, is_open = False, on_open = callback\<rparr>)) (channels ?c')\<rparr>)"
      by (rule pool_inv_register)
    then show ?thesis using Some True by (simp add: Channel_new_def claim_channel_id_def)
  qed
qed

lemma Channel_open_pool_inv:
  assumes "pool_inv c"
  shows "pool_inv (Channel_open c i)"
proof -
  have "fst ` set (map (\<lambda>p. case p of
                                  (j, ChannelObj ch) \<Rightarrow>
                                    if j = i then (j, ChannelObj (ch\<lparr>is_open := True\<rparr>)) else p
                                | _ \<Rightarrow> p) chs) = fst ` set chs"
    for chs :: "(int \<times> chan_obj) list"
    by (induction chs) (auto split: chan_obj.splits)
  with assms show ?thesis
    by (auto simp: pool_inv_def registered_ids_def Channel_open_def send_method_def
        split: option.splits)
qed

text \<open>
  Opening channels keeps the pool invariant: an id handed out by the pool is never the
  id of a registered channel.
\<close>

lemma channel_method_pool_inv:
  assumes "pool_inv c"
  shows "pool_inv (snd (channel_method c requested callback))"
proof -
  have n: "pool_inv (snd (Channel_new c requested callback))"
    using assms by (rule Channel_new_pool_inv)
  show ?thesis
    using assms n Channel_open_pool_inv[of "snd (Channel_new c requested callback)"]
    by (auto simp: channel_method_def Let_def split: option.splits prod.splits sum.splits)
qed

section \<open>Tune: heartbeat and limits\<close>

text \<open>
  Claim C1. For every client heartbeat \<open>ch\<close> fixed at construction and every server
  heartbeat \<open>s\<close> delivered in Tune, the heartbeat that the Tune handler stores is 0 if
  \<open>ch = 0\<close>, otherwise \<open>max ch s\<close> if \<open>s = 0\<close>, otherwise \<open>min ch s\<close>; a client
  heartbeat of \<open>None\<close> is falsy and gives 0 as well. In particular
  negotiate(0, 60) = 0, negotiate(30, 0) = 30, negotiate(30, 60) = 30 and
  negotiate(60, 30) = 30.
\<close>

theorem on_tune_heartbeat:
  "heartbeat (on_tune c cm fm s) =
     Some (case client_heartbeat c of
             None \<Rightarrow> 0
           | Some ch \<Rightarrow> if ch = 0 then 0 else if s = 0 then max ch s else min ch s)
   \<and> heartbeat (on_tune (c\<lparr>client_heartbeat := Some 0\<rparr>) cm fm 60) = Some 0
   \<and> heartbeat (on_tune (c\<lparr>client_heartbeat := Some 30\<rparr>) cm fm 0) = Some 30
   \<and> heartbeat (on_tune (c\<lparr>client_heartbeat := Some 30\<rparr>) cm fm 60) = Some 30
   \<and> heartbeat (on_tune (c\<lparr>client_heartbeat := Some 60\<rparr>) cm fm 30) = Some 30"
  by (auto simp: tune_defs split: option.splits)




section \<open>The channel-id pool\<close>

text \<open>
  Claim C4. For every channel id, \<open>_claim_channel_id\<close> fails exactly when the id is not
  in the free pool, and then with a \<open>ConnectionError\<close> whose text says that the channel
  is already open, the connection unchanged; when it succeeds, one occurrence of the id
  is taken out of the pool, so that the id is no longer in a pool of distinct ids.
\<close>

theorem claim_channel_id_iff:
  "(fst (claim_channel_id c i) \<noteq> None \<longleftrightarrow> i \<notin> set (avail_channel_ids c))
   \<and> (i \<notin> set (avail_channel_ids c) \<longrightarrow>
        claim_channel_id c i =
          (Some (Exc ConnectionError (''Channel '' @ str_int i @ '' already open'') None None), c))
   \<and> (i \<in> set (avail_channel_ids c) \<longrightarrow>
        claim_channel_id c i = (None, c\<lparr>avail_channel_ids := remove1 i (avail_channel_ids c)\<rparr>))
   \<and> (i \<in> set (avail_channel_ids c) \<and> distinct (avail_channel_ids c) \<longrightarrow>
        i \<notin> set (avail_channel_ids (snd (claim_channel_id c i))))"
  by (simp add: claim_channel_id_def)

theorem claim_channel_id_iff_witness:
  "avail_channel_ids (example_conn (Some 3) None) = [3, 2, 1]
   \<and> claim_channel_id (example_conn (Some 3) None) 2
       = (None, (example_conn (Some 3) None)\<lparr>avail_channel_ids := [3, 1]\<rparr>)
   \<and> claim_channel_id ((example_conn (Some 3) None)\<lparr>avail_channel_ids := [3, 1]\<rparr>) 2
       = (Some (Exc ConnectionError ''Channel 2 already open'' None None),
          (example_conn (Some 3) None)\<lparr>avail_channel_ids := [3, 1]\<rparr>)"
  using claim_channel_id_iff [of "example_conn (Some 3) None" 2]
    claim_channel_id_iff [of "(example_conn (Some 3) None)\<lparr>avail_channel_ids := [3, 1]\<rparr>" 2]
    example_conn_pool [of None] str_small
  by simp

text \<open>
  Claim C5. \<open>_get_free_channel_id\<close> fails exactly when the free pool is empty. On a
  connection whose registry is still there the failure is a \<open>ResourceError\<close> saying
  "No free channel ids, ..." with the signature of \<open>Channel.Open\<close>, and the
  connection is unchanged (on a torn-down connection the message cannot be built and the
  failure is a \<open>TypeError\<close>). Otherwise the result is the last id of the pool, which is
  removed from the pool; under the pool invariant it is not the id of any registered
  channel, it is no longer in the pool, and the invariant still holds.
\<close>

theorem get_free_channel_id_spec:
  "(isl (fst (get_free_channel_id c)) \<longleftrightarrow> avail_channel_ids c = [])
   \<and> (avail_channel_ids c = [] \<and> channels c = Some chs \<longrightarrow>
        get_free_channel_id c =
          (Inl (Exc ResourceError
                  (''No free channel ids, current='' @ str_nat (length chs) @
                   '', channel_max='' @ str_int (channel_max c))
                  (Some spec_Channel_Open) None), c))
   \<and> (avail_channel_ids c \<noteq> [] \<longrightarrow>
        get_free_channel_id c =
          (Inr (last (avail_channel_ids c)),
           c\<lparr>avail_channel_ids := butlast (avail_channel_ids c)\<rparr>)
        \<and> last (avail_channel_ids c) \<in> set (avail_channel_ids c))
   \<and> (avail_channel_ids c \<noteq> [] \<and> pool_inv c \<longrightarrow>
        projr (fst (get_free_channel_id c)) \<notin> registered_ids c
        \<and> projr (fst (get_free_channel_id c))
             \<notin> set (avail_channel_ids (snd (get_free_channel_id c)))
        \<and> pool_inv (snd (get_free_channel_id c)))"
proof -
  have a: "isl (fst (get_free_channel_id c)) \<longleftrightarrow> avail_channel_ids c = []"
    by (simp add: get_free_channel_id_def split: option.splits)
  have b: "get_free_channel_id c =
          (Inl (Exc ResourceError
                  (''No free channel ids, current='' @ str_nat (length chs) @
                   '', channel_max='' @ str_int (channel_max c))
                  (Some spec_Channel_Open) None), c)"
    if "avail_channel_ids c = []" "channels c = Some chs"
    using that by (simp add: get_free_channel_id_def)
  have d: "get_free_channel_id c =
          (Inr (last (avail_channel_ids c)),
           c\<lparr>avail_channel_ids := butlast (avail_channel_ids c)\<rparr>)"
    if "avail_channel_ids c \<noteq> []"
    using that by (simp add: get_free_channel_id_def)
  have e: "projr (fst (get_free_channel_id c)) \<notin> registered_ids c
        \<and> projr (fst (get_free_channel_id c))
             \<notin> set (avail_channel_ids (snd (get_free_channel_id c)))
        \<and> pool_inv (snd (get_free_channel_id c))"
    if "avail_channel_ids c \<noteq> []" "pool_inv c"
    using pool_inv_pop[OF that(2) that(1)] d[OF that(1)] by simp
  from a b d e show ?thesis by simp
qed

theorem get_free_channel_id_spec_witness:
  "pool_inv (example_conn (Some 1) None)
   \<and> get_free_channel_id (example_conn (Some 1) None)
       = (Inr 1, (example_conn (Some 1) None)\<lparr>avail_channel_ids := []\<rparr>)
   \<and> 1 \<notin> registered_ids (example_conn (Some 1) None)
   \<and> get_free_channel_id ((example_conn (Some 1) None)\<lparr>avail_channel_ids := []\<rparr>)
       = (Inl (Exc ResourceError ''No free channel ids, current=1, channel_max=1''
                 (Some (20, 10)) None),
          (example_conn (Some 1) None)\<lparr>avail_channel_ids := []\<rparr>)"
proof -
  have inv: "pool_inv (example_conn (Some 1) None)"
    by (simp add: pool_inv_def registered_ids_def example_conn1)
  show ?thesis
    using inv
      get_free_channel_id_spec [of "example_conn (Some 1) None" "[(0, SelfConnection)]"]
      get_free_channel_id_spec [of "(example_conn (Some 1) None)\<lparr>avail_channel_ids := []\<rparr>"
         "[(0, SelfConnection)]"]
    by (simp add: example_conn1 str_small spec_Channel_Open_def registered_ids_def)
qed

section \<open>connect and channel\<close>




text \<open>
  Claim C9. \<open>channel(id)\<close> returns the object registered under \<open>id\<close> when there is
  one, and leaves the connection as it is (nothing is sent, so no channel-open
  handshake); when the registry has been torn down it raises
  \<open>RecoverableConnectionError\<close> "Connection already closed.", and the registry is torn
  down (\<open>None\<close>) after \<open>collect()\<close>, on every path through it.
\<close>

theorem channel_existing_or_closed:
  "(channels c = Some chs \<and> map_of chs i = Some obj \<longrightarrow>
      channel_method c (Some i) callback = (Inr obj, c))
   \<and> (channels c = None \<longrightarrow>
        channel_method c requested callback =
          (Inl (Exc RecoverableConnectionError ''Connection already closed.'' None None), c))
   \<and> channels (snd (collect c)) = None
   \<and> channel_method (snd (collect c)) requested callback =
        (Inl (Exc RecoverableConnectionError ''Connection already closed.'' None None),
         snd (collect c))"
proof -
  have a: "channels (snd (collect c)) = None"
    by (simp add: collect_def Let_def split: option.splits)
  have b: "channel_method c' requested callback =
          (Inl (Exc RecoverableConnectionError ''Connection already closed.'' None None), c')"
    if "channels c' = None" for c'
    using that by (simp add: channel_method_def)
  have d: "channel_method c (Some i) callback = (Inr obj, c)"
    if "channels c = Some chs" "map_of chs i = Some obj"
    using that by (simp add: channel_method_def)
  from a b[of c] b[OF a] d show ?thesis by simp
qed

theorem channel_existing_or_closed_witness:
  "channel_method (snd (channel_method example_open None None)) (Some 1) None
     = (Inr (ChannelObj \<lparr>channel_id = 1, is_open = True, on_open = None\<rparr>),
        snd (channel_method example_open None None))
   \<and> channels (snd (collect example_open)) = None
   \<and> channel_method (snd (collect example_open)) (Some 1) None
       = (Inl (Exc RecoverableConnectionError ''Connection already closed.'' None None),
          snd (collect example_open))"
  using channel_existing_or_closed [of "snd (channel_method example_open None None)"
      "[(0, SelfConnection), (1, ChannelObj \<lparr>channel_id = 1, is_open = True, on_open = None\<rparr>)]"
      1 "ChannelObj \<lparr>channel_id = 1, is_open = True, on_open = None\<rparr>" None "Some 1"]
    channel_existing_or_closed [of example_open "[]" 1 SelfConnection None "Some 1"]
  by (simp add: example_first_channel)

section \<open>Receiving Close\<close>

text \<open>
  Claim C6. For every Close(reply_code, reply_text, class_id, method_id) received by a
  live connection (it has a transport and a registry, as every connection that receives a
  frame has), the handler first sends CloseOk on channel 0, which releases the transport
  and the registry, and then raises the error made for the reply code: it carries
  \<open>reply_code\<close>, \<open>reply_text\<close> and the offending (class_id, method_id), and its class
  is \<open>ConnectionError\<close> unless the reply-code table gives another. For
  Close(320, "CONNECTION_FORCED", 0, 0) the outgoing CloseOk is followed by an error with
  reply code 320.
\<close>

theorem on_close_replies_then_raises:
  "transport_opt c \<noteq> None \<and> channels c \<noteq> None \<longrightarrow>
     fst (on_close error_map c code rtext class_id method_id) =
       Some (Exc (case error_map code of None \<Rightarrow> ConnectionError | Some cls \<Rightarrow> cls)
                 rtext (Some (class_id, method_id)) (Some code))
     \<and> sent (snd (on_close error_map c code rtext class_id method_id)) =
         sent c @ [Frame 1 0 (Some CloseOk)]
     \<and> transport_opt (snd (on_close error_map c code rtext class_id method_id)) = None
     \<and> channels (snd (on_close error_map c code rtext class_id method_id)) = None"
proof -
  have s: "sent (fold (\<lambda>i c'. channel_collect c' i) xs c') = sent c'" for xs c'
    by (induction xs arbitrary: c') (simp_all add: channel_collect_def)
  show ?thesis
    by (auto simp: on_close_def x_close_ok_def on_close_ok_def collect_def send_method_def
        error_for_code_def Let_def s split: option.splits)
qed

theorem on_close_replies_then_raises_witness:
  "transport_opt example_open \<noteq> None \<and> channels example_open \<noteq> None
   \<and> fst (on_close example_error_map example_open 320 ''CONNECTION_FORCED'' 0 0)
       = Some (Exc ConnectionForced ''CONNECTION_FORCED'' (Some (0, 0)) (Some 320))
   \<and> fst (on_close empty_error_map example_open 320 ''CONNECTION_FORCED'' 0 0)
       = Some (Exc ConnectionError ''CONNECTION_FORCED'' (Some (0, 0)) (Some 320))
   \<and> sent (snd (on_close example_error_map example_open 320 ''CONNECTION_FORCED'' 0 0))
       = sent example_open @ [Frame 1 0 (Some CloseOk)]"
  using on_close_replies_then_raises
      [of example_open example_error_map 320 "''CONNECTION_FORCED''" 0 0]
    on_close_replies_then_raises
      [of example_open empty_error_map 320 "''CONNECTION_FORCED''" 0 0]
  by (simp add: example_open_fields example_error_map_def empty_error_map_def)

section \<open>Heartbeats\<close>



text \<open>
  Claim C10, as stated, fails: the error is reachable on the first tick. The final
  comparison takes a clock reading of its own, so a first tick whose final reading is
  more than \<open>2 * heartbeat\<close> after the stamp it has just stored raises (heartbeat 60,
  stamp at 10, comparison at 200); and with a negative heartbeat the first tick raises
  even when the clock stands still.
\<close>

theorem first_tick_counterexample:
  "prev_sent example_tuned = None \<and> prev_recv example_tuned = None
   \<and> heartbeat example_tuned = Some 60
   \<and> fst (heartbeat_tick example_tuned example_drift)
       = Some (Exc ConnectionForced ''Too many heartbeats missed'' None None)
   \<and> prev_sent (example_tuned\<lparr>heartbeat := Some (- 1)\<rparr>) = None
   \<and> prev_recv (example_tuned\<lparr>heartbeat := Some (- 1)\<rparr>) = None
   \<and> fst (heartbeat_tick (example_tuned\<lparr>heartbeat := Some (- 1)\<rparr>) (instant 10))
       = Some (Exc ConnectionForced ''Too many heartbeats missed'' None None)"
  by (simp add: heartbeat_tick_def send_heartbeat_def example_tuned_fields example_drift_def
      instant_def Let_def)

text \<open>
  Claim C10, amended. On the first tick of a connection with a nonzero heartbeat \<open>hb\<close>
  (\<open>prev_sent\<close> and \<open>prev_recv\<close> are both \<open>None\<close>), whatever the byte counters and the
  old stamps are, \<open>last_heartbeat_received\<close> is set to the reading taken for it and
  \<open>last_heartbeat_sent\<close> to the reading taken for it (the one after \<open>send_heartbeat\<close>
  if a heartbeat was due). The tick raises "Too many heartbeats missed", and nothing
  else, exactly when the stamp just stored is nonzero and the reading of the final
  comparison is more than \<open>2 * hb\<close> after it. So for a heartbeat that is not negative
  the error cannot be raised on the first tick when the tick runs at one instant, or more
  generally when its final reading is at most \<open>2 * hb\<close> after the stamp; the time that
  has passed since the connection was created plays no part.
\<close>

theorem first_tick_forced_iff:
  assumes "prev_sent c = None" and "prev_recv c = None"
    and "heartbeat c = Some hb" and "hb \<noteq> 0"
  shows "last_heartbeat_received (snd (heartbeat_tick c clk)) = at_recv_stamp clk
    \<and> last_heartbeat_sent (snd (heartbeat_tick c clk)) =
        (if at_now clk > at_sent_stamp clk + hb then at_after_send clk else at_sent_stamp clk)
    \<and> (fst (heartbeat_tick c clk)
          = Some (Exc ConnectionForced ''Too many heartbeats missed'' None None)
        \<longleftrightarrow> at_recv_stamp clk \<noteq> 0 \<and> at_recv_stamp clk + 2 * hb < at_check clk)
    \<and> (fst (heartbeat_tick c clk) = None
        \<or> fst (heartbeat_tick c clk)
             = Some (Exc ConnectionForced ''Too many heartbeats missed'' None None))
    \<and> (0 \<le> hb \<and> at_check clk \<le> at_recv_stamp clk + 2 * hb \<longrightarrow>
          fst (heartbeat_tick c clk) = None)
    \<and> (0 \<le> hb \<longrightarrow>
          fst (heartbeat_tick c (instant now)) = None
          \<and> last_heartbeat_received (snd (heartbeat_tick c (instant now))) = now
          \<and> last_heartbeat_sent (snd (heartbeat_tick c (instant now))) = now)"
  using assms
  by (auto simp: heartbeat_tick_def send_heartbeat_def instant_def Let_def)

theorem first_tick_forced_iff_witness:
  "prev_sent example_tuned = None \<and> prev_recv example_tuned = None
   \<and> heartbeat example_tuned = Some 60 \<and> bytes_recv example_tuned = 0
   \<and> last_heartbeat_received example_tuned = 0
   \<and> fst (heartbeat_tick example_tuned (instant 1000000)) = None
   \<and> last_heartbeat_received (snd (heartbeat_tick example_tuned (instant 1000000))) = 1000000
   \<and> last_heartbeat_sent (snd (heartbeat_tick example_tuned (instant 1000000))) = 1000000
   \<and> last_heartbeat_received (snd (heartbeat_tick example_tuned example_drift)) = 10
   \<and> fst (heartbeat_tick example_tuned example_drift)
       = Some (Exc ConnectionForced ''Too many heartbeats missed'' None None)"
  using first_tick_forced_iff [of example_tuned 60 "instant 1000000" 1000000]
    first_tick_forced_iff [of example_tuned 60 example_drift 1000000]
  by (simp add: example_tuned_fields instant_def example_drift_def)

section \<open>Start: capability negotiation\<close>

lemma dict_set_absent: "k \<notin> fst ` set d \<Longrightarrow> dict_set d k v = d @ [(k, v)]"
  by (induction d) auto

lemma dict_set_last: "k \<notin> fst ` set d \<Longrightarrow> dict_set (d @ [(k, v)]) k v' = d @ [(k, v')]"
  by (induction d) auto

lemma dict_pop_last: "k \<notin> fst ` set d \<Longrightarrow> dict_pop (d @ [(k, v)]) k = d"
  by (induction d) (auto simp: dict_pop_def)

lemma dict_get_last: "k \<notin> fst ` set d \<Longrightarrow> dict_get (d @ [(k, v)]) k = v"
  by (induction d) (auto simp: dict_get_def)

lemma dict_update_distinct:
  "distinct (map fst (d @ kvs)) \<Longrightarrow> dict_update d kvs = d @ kvs"
proof (induction kvs arbitrary: d)
  case Nil
  then show ?case by simp
next
  case (Cons p kvs)
  obtain k v where p: "p = (k, v)" by (cases p)
  from Cons.prems p have "k \<notin> fst ` set d" by auto
  then have "dict_set d k v = d @ [(k, v)]" by (rule dict_set_absent)
  moreover from Cons.prems p have "distinct (map fst ((d @ [(k, v)]) @ kvs))" by simp
  ultimately show ?case using Cons.IH[of "d @ [(k, v)]"] p by simp
qed

lemma map_of_filter_key:
  "map_of (filter (\<lambda>(k, v). Q k) t) w = (if Q w then map_of t w else None)"
  by (induction t) auto

lemma cap_comprehension_distinct:
  assumes "distinct (map fst table)"
  shows "cap_comprehension sd table = filter (\<lambda>(w, e). truthy (dict_get sd w)) table"
proof -
  have "distinct (map fst (filter (\<lambda>(w, e). truthy (dict_get sd w)) table))"
    using assms by (rule distinct_map_filter)
  then show ?thesis by (simp add: cap_comprehension_def dict_update_distinct)
qed

lemma NEGOTIATE_distinct: "distinct (map fst NEGOTIATE_CAPABILITIES)"
  by (simp add: NEGOTIATE_CAPABILITIES_def)

lemma truthy_get_listed: "truthy (dict_get sd k) \<Longrightarrow> k \<in> fst ` set sd"
  by (cases "map_of sd k") (auto simp: dict_get_def dest: map_of_SomeD intro: rev_image_eqI)

lemma negotiated_lookup:
  "map_of (cap_comprehension sd NEGOTIATE_CAPABILITIES) w =
     (if truthy (dict_get sd w) then map_of NEGOTIATE_CAPABILITIES w else None)"
  by (simp add: cap_comprehension_distinct[OF NEGOTIATE_distinct] map_of_filter_key)

text \<open>
  What \<open>_on_start\<close> does on a connection whose client properties have no capabilities of
  their own, when the server's capabilities are a table (or missing, or empty).
\<close>

lemma on_start_fresh:
  assumes "map_of (client_properties c) ''capabilities'' = None"
    and "negotiate_capabilities c = NEGOTIATE_CAPABILITIES"
    and "capabilities_of sprops = PDict scap"
  shows "on_start c vmajor vminor sprops mechs locs =
     (let cp = (if cap_comprehension scap NEGOTIATE_CAPABILITIES = [] then client_properties c
                else client_properties c @
                       [(''capabilities'', PDict (cap_comprehension scap NEGOTIATE_CAPABILITIES))])
      in (None, c\<lparr>version_major := vmajor, version_minor := vminor,
                 server_properties := sprops,
                 mechanisms := split_blank mechs, locales := split_blank locs,
                 client_properties := cp,
                 sent := sent c @ [Frame 1 0 (Some (StartOk cp (login_method c)
                                        (login_response c) (locale_str c)))]\<rparr>))"
proof -
  from assms(1) have k: "''capabilities'' \<notin> fst ` set (client_properties c)"
    by (simp add: map_of_eq_None_iff)
  have ne: "NEGOTIATE_CAPABILITIES \<noteq> []" by (simp add: NEGOTIATE_CAPABILITIES_def)
  have u: "dict_update [] (cap_comprehension scap NEGOTIATE_CAPABILITIES)
             = cap_comprehension scap NEGOTIATE_CAPABILITIES"
    using distinct_map_filter[OF NEGOTIATE_distinct]
    by (simp add: cap_comprehension_distinct[OF NEGOTIATE_distinct] dict_update_distinct)
  show ?thesis
    using assms ne
    by (simp add: on_start_def Let_def wanted_caps_def send_method_def u
        dict_set_absent[OF k] dict_get_last[OF k] dict_set_last[OF k] dict_pop_last[OF k])
qed

lemma example_sprops_caps:
  "capabilities_of (example_sprops b) =
     PDict [(''consumer_cancel_notify'', PBool b), (''publisher_confirms'', PBool True)]"
  by (simp add: capabilities_of_def example_sprops_def dict_get_def)

text \<open>
  Claim C3, as stated, fails: what the code tests is the truth value of the server's
  entry, not its presence. A server whose capability table lists
  \<open>consumer_cancel_notify\<close> with the value false is answered with a StartOk whose client
  properties have no \<open>capabilities\<close> key at all, although the negotiation table wants
  \<open>consumer_cancel_notify\<close> and the server lists it.
\<close>

theorem on_start_capabilities_counterexample:
  "(''consumer_cancel_notify'', PBool True) \<in> set NEGOTIATE_CAPABILITIES
   \<and> capabilities_of (example_sprops False) =
       PDict [(''consumer_cancel_notify'', PBool False), (''publisher_confirms'', PBool True)]
   \<and> ''consumer_cancel_notify''
       \<in> fst ` set [(''consumer_cancel_notify'', PBool False), (''publisher_confirms'', PBool True)]
   \<and> fst (on_start (example_conn (Some 3) None) 0 9 (example_sprops False) ''PLAIN'' ''en_US'')
       = None
   \<and> sent (snd (on_start (example_conn (Some 3) None) 0 9 (example_sprops False)
                  ''PLAIN'' ''en_US''))
       = [Frame 1 0 (Some (StartOk [(''product'', PStr ''py-amqp''),
                                    (''product_version'', PStr ''2.0'')]
                             ''AMQPLAIN'' (Some ''LOGIN-PASSWORD'') ''en_US''))]
   \<and> map_of (client_properties
               (snd (on_start (example_conn (Some 3) None) 0 9 (example_sprops False)
                      ''PLAIN'' ''en_US'')))
        ''capabilities'' = None"
proof -
  have n: "cap_comprehension
             [(''consumer_cancel_notify'', PBool False), (''publisher_confirms'', PBool True)]
             NEGOTIATE_CAPABILITIES = []"
    by (simp add: cap_comprehension_def NEGOTIATE_CAPABILITIES_def dict_get_def)
  have r: "on_start (example_conn (Some 3) None) 0 9 (example_sprops False) ''PLAIN'' ''en_US'' =
      (None, (example_conn (Some 3) None)
         \<lparr>version_major := 0, version_minor := 9, server_properties := example_sprops False,
          mechanisms := [''PLAIN''], locales := [''en_US''],
          client_properties := [(''product'', PStr ''py-amqp''), (''product_version'', PStr ''2.0'')],
          sent := [Frame 1 0 (Some (StartOk [(''product'', PStr ''py-amqp''),
                                             (''product_version'', PStr ''2.0'')]
                                      ''AMQPLAIN'' (Some ''LOGIN-PASSWORD'') ''en_US''))]\<rparr>)"
    by (simp add: on_start_fresh[OF _ _ example_sprops_caps] example_fields n Let_def)
  show ?thesis
    by (simp add: r example_sprops_caps) (simp add: NEGOTIATE_CAPABILITIES_def)
qed

text \<open>
  Claim C3, amended. On a connection whose client properties carry no capabilities of
  their own and that uses the default negotiation table, for every server properties
  whose capabilities are a table (or missing, or empty): the StartOk that is sent carries
  the client properties, in which \<open>capabilities[wanted_cap] = enable_cap\<close> for an entry
  (wanted_cap, enable_cap) of the table exactly when the server's capability table gives
  \<open>wanted_cap\<close> a truthy value; every key of the capabilities sent is listed by the
  server, with a truthy value; and when no capability is left the \<open>capabilities\<close> key is
  absent from the client properties.
\<close>

theorem on_start_capabilities:
  assumes "map_of (client_properties c) ''capabilities'' = None"
    and "negotiate_capabilities c = NEGOTIATE_CAPABILITIES"
    and "capabilities_of sprops = PDict scap"
  shows "fst (on_start c vmajor vminor sprops mechs locs) = None
    \<and> sent (snd (on_start c vmajor vminor sprops mechs locs)) =
        sent c @ [Frame 1 0 (Some (StartOk
                    (client_properties (snd (on_start c vmajor vminor sprops mechs locs)))
                    (login_method c) (login_response c) (locale_str c)))]
    \<and> client_properties (snd (on_start c vmajor vminor sprops mechs locs)) =
        (if cap_comprehension scap NEGOTIATE_CAPABILITIES = [] then client_properties c
         else client_properties c @
                [(''capabilities'', PDict (cap_comprehension scap NEGOTIATE_CAPABILITIES))])
    \<and> (\<forall>(wanted_cap, enable_cap) \<in> set NEGOTIATE_CAPABILITIES.
          map_of (cap_comprehension scap NEGOTIATE_CAPABILITIES) wanted_cap = Some enable_cap
            \<longleftrightarrow> truthy (dict_get scap wanted_cap))
    \<and> (\<forall>k \<in> fst ` set (cap_comprehension scap NEGOTIATE_CAPABILITIES).
          k \<in> fst ` set scap \<and> truthy (dict_get scap k))
    \<and> (cap_comprehension scap NEGOTIATE_CAPABILITIES = [] \<longrightarrow>
          map_of (client_properties (snd (on_start c vmajor vminor sprops mechs locs)))
            ''capabilities'' = None)"
proof -
  let ?neg = "cap_comprehension scap NEGOTIATE_CAPABILITIES"
  note r = on_start_fresh[OF assms, of vmajor vminor mechs locs]
  have a: "fst (on_start c vmajor vminor sprops mechs locs) = None"
    by (simp add: r Let_def)
  have cp: "client_properties (snd (on_start c vmajor vminor sprops mechs locs)) =
        (if ?neg = [] then client_properties c
         else client_properties c @ [(''capabilities'', PDict ?neg)])"
    by (simp add: r Let_def)
  have s: "sent (snd (on_start c vmajor vminor sprops mechs locs)) =
        sent c @ [Frame 1 0 (Some (StartOk
                    (client_properties (snd (on_start c vmajor vminor sprops mechs locs)))
                    (login_method c) (login_response c) (locale_str c)))]"
    by (simp add: r Let_def)
  have w: "map_of ?neg wanted_cap = Some enable_cap \<longleftrightarrow> truthy (dict_get scap wanted_cap)"
    if "(wanted_cap, enable_cap) \<in> set NEGOTIATE_CAPABILITIES" for wanted_cap enable_cap
  proof -
    from that NEGOTIATE_distinct have "map_of NEGOTIATE_CAPABILITIES wanted_cap = Some enable_cap"
      by simp
    then show ?thesis by (simp add: negotiated_lookup)
  qed
  have k: "k \<in> fst ` set scap \<and> truthy (dict_get scap k)" if "k \<in> fst ` set ?neg" for k
  proof -
    from that have "map_of ?neg k \<noteq> None" by (simp add: map_of_eq_None_iff)
    then have "truthy (dict_get scap k)" by (simp add: negotiated_lookup split: if_splits)
    then show ?thesis by (simp add: truthy_get_listed)
  qed
  have e: "map_of (client_properties (snd (on_start c vmajor vminor sprops mechs locs)))
            ''capabilities'' = None" if "?neg = []"
    using that assms(1) by (simp add: cp)
  from a s cp w k e show ?thesis by blast
qed

theorem on_start_capabilities_witness:
  "map_of (client_properties (example_conn (Some 3) None)) ''capabilities'' = None
   \<and> negotiate_capabilities (example_conn (Some 3) None) = NEGOTIATE_CAPABILITIES
   \<and> capabilities_of (example_sprops True) =
       PDict [(''consumer_cancel_notify'', PBool True), (''publisher_confirms'', PBool True)]
   \<and> fst (on_start (example_conn (Some 3) None) 0 9 (example_sprops True) ''PLAIN'' ''en_US'')
       = None
   \<and> sent (snd (on_start (example_conn (Some 3) None) 0 9 (example_sprops True)
                  ''PLAIN'' ''en_US''))
       = [Frame 1 0 (Some (StartOk
            [(''product'', PStr ''py-amqp''), (''product_version'', PStr ''2.0''),
             (''capabilities'', PDict [(''consumer_cancel_notify'', PBool True)])]
            ''AMQPLAIN'' (Some ''LOGIN-PASSWORD'') ''en_US''))]"
proof -
  have n: "cap_comprehension
             [(''consumer_cancel_notify'', PBool True), (''publisher_confirms'', PBool True)]
             NEGOTIATE_CAPABILITIES = [(''consumer_cancel_notify'', PBool True)]"
    by (simp add: cap_comprehension_def NEGOTIATE_CAPABILITIES_def dict_get_def)
  have h1: "map_of (client_properties (example_conn (Some 3) None)) ''capabilities'' = None"
    by (simp add: example_fields)
  have h2: "negotiate_capabilities (example_conn (Some 3) None) = NEGOTIATE_CAPABILITIES"
    by (simp add: example_fields)
  show ?thesis
    using on_start_capabilities [OF h1 h2 example_sprops_caps [of True], of 0 9 "''PLAIN''" "''en_US''"]
      h1 h2
    by (simp add: n example_fields example_sprops_caps)
qed

end
